theory Spec2Isabelle
  imports Complex_Main
begin

section \<open>Exceptions\<close>

text \<open>
  Python exceptions are values. The interpreter's own \<open>TypeError\<close> (an unhashable
  cache key, \<open>raise None\<close>, a datetime minus a string, arithmetic on a dict),
  \<open>KeyError\<close> and \<open>IndexError\<close> are kept apart from the failures of a
  collaborator (network, remote cache), which carry their message.
\<close>

datatype exn = TypeError string | KeyError string | IndexError string | Failure string

text \<open>\<open>str(e)\<close>, the error detail that is logged and stored.\<close>

fun str :: "exn \<Rightarrow> string" where
  "str (TypeError m) = m"
| "str (KeyError k) = [CHR 0x27] @ k @ [CHR 0x27]"
| "str (IndexError m) = m"
| "str (Failure m) = m"

section \<open>utils.py: retry\_on\_exception\<close>

text \<open>
  The wrapped operation is stateful and fallible: from a state of the outside world it
  yields an outcome and the next state. A run of the wrapper records the outcome, how
  often the operation was invoked, and the arguments of every \<open>time.sleep\<close> in
  order.
\<close>

type_synonym ('s, 'a) operation = "'s \<Rightarrow> (exn + 'a) \<times> 's"

record ('s, 'a) retry_run =
  outcome :: "exn + 'a"
  invocations :: nat
  sleeps :: "rat list"
  world :: 's

text \<open>\<open>range(retries)\<close>: empty when \<open>retries \<le> 0\<close>.\<close>

definition range_py :: "int \<Rightarrow> int list" where
  "range_py n = map int [0..<nat n]"

text \<open>\<open>raise last_exception\<close>; raising \<open>None\<close> is itself a \<open>TypeError\<close>.\<close>

definition raise_last :: "exn option \<Rightarrow> exn" where
  "raise_last last_exception =
     (case last_exception of
        None \<Rightarrow> TypeError ''exceptions must derive from BaseException''
      | Some e \<Rightarrow> e)"

text \<open>The \<open>for attempt in range(retries)\<close> loop, by recursion on the attempts left.\<close>

fun retry_loop ::
  "int \<Rightarrow> rat \<Rightarrow> ('s, 'a) operation \<Rightarrow> int list \<Rightarrow> exn option \<Rightarrow> nat \<Rightarrow> rat list \<Rightarrow> 's
     \<Rightarrow> ('s, 'a) retry_run" where
  "retry_loop retries delay func [] last_exception n sl s =
     \<lparr>outcome = Inl (raise_last last_exception), invocations = n, sleeps = sl, world = s\<rparr>"
| "retry_loop retries delay func (attempt # rest) last_exception n sl s =
     (case func s of
        (Inr v, s') \<Rightarrow> \<lparr>outcome = Inr v, invocations = Suc n, sleeps = sl, world = s'\<rparr>
      | (Inl e, s') \<Rightarrow>
          retry_loop retries delay func rest (Some e) (Suc n)
            (if attempt < retries - 1 then sl @ [delay * 2 ^ nat attempt] else sl) s')"

definition retry_on_exception ::
  "int \<Rightarrow> rat \<Rightarrow> ('s, 'a) operation \<Rightarrow> 's \<Rightarrow> ('s, 'a) retry_run" where
  "retry_on_exception retries delay func s =
     retry_loop retries delay func (range_py retries) None 0 [] s"




section \<open>Readings\<close>

text \<open>
  An instant (a \<open>datetime\<close>) is a number of microseconds since the epoch, the resolution
  of \<open>datetime.now()\<close>. Measured numbers are floats in the source; they are reals here,
  so rounding is not modelled, and the results a float operation gives outside the reals
  (division by zero) are written out in \<open>fl\<close>.
\<close>

type_synonym instant = int

text \<open>
  A reading is the dict \<open>HealthMetric.to_dict()\<close> builds, tagged by its \<open>'type'\<close>:
  the \<open>'value'\<close> is a number for weight and heart rate, the dict
  \<open>{'systolic', 'diastolic'}\<close> for blood pressure, and the state for sleep, which also
  has \<open>'start'\<close> and \<open>'end'\<close>. Every reading has a \<open>'timestamp'\<close>. (The unit
  and the other additional entries are read by nothing below.)
\<close>

datatype reading =
    Weight real instant
  | Blood_Pressure real real instant
  | Heart_Rate real instant
  | Sleep string instant instant instant

datatype pyvalue = Num real | Pressure real real | State string

text \<open>\<open>d['value']\<close> and \<open>d['timestamp']\<close>.\<close>

fun value_of :: "reading \<Rightarrow> pyvalue" where
  "value_of (Weight v t) = Num v"
| "value_of (Blood_Pressure s d t) = Pressure s d"
| "value_of (Heart_Rate v t) = Num v"
| "value_of (Sleep st t b e) = State st"

fun timestamp :: "reading \<Rightarrow> instant" where
  "timestamp (Weight v t) = t"
| "timestamp (Blood_Pressure s d t) = t"
| "timestamp (Heart_Rate v t) = t"
| "timestamp (Sleep st t b e) = t"

text \<open>A value used as a number; arithmetic on a dict or a state is a \<open>TypeError\<close>.\<close>

fun number :: "pyvalue \<Rightarrow> exn + real" where
  "number (Num v) = Inr v"
| "number (Pressure s d) = Inl (TypeError ''unsupported operand type: dict'')"
| "number (State st) = Inl (TypeError ''could not convert to numeric'')"

text \<open>\<open>d['systolic']\<close>, \<open>d['diastolic']\<close> for \<open>d\<close> the value of a reading.\<close>

fun pressure :: "pyvalue \<Rightarrow> exn + real \<times> real" where
  "pressure (Pressure s d) = Inr (s, d)"
| "pressure (Num v) = Inl (TypeError ''float object is not subscriptable'')"
| "pressure (State st) = Inl (TypeError ''string indices must be integers'')"

text \<open>\<open>sleep['start']\<close> and \<open>sleep['end']\<close>.\<close>

fun interval :: "reading \<Rightarrow> exn + instant \<times> instant" where
  "interval (Sleep st t b e) = Inr (b, e)"
| "interval (Weight v t) = Inl (KeyError ''start'')"
| "interval (Blood_Pressure s d t) = Inl (KeyError ''start'')"
| "interval (Heart_Rate v t) = Inl (KeyError ''start'')"

text \<open>A list comprehension whose body may raise: the first exception ends it.\<close>

fun collect :: "('a \<Rightarrow> exn + 'b) \<Rightarrow> 'a list \<Rightarrow> exn + 'b list" where
  "collect f [] = Inr []"
| "collect f (x # xs) =
     (case f x of
        Inl e \<Rightarrow> Inl e
      | Inr y \<Rightarrow> (case collect f xs of Inl e \<Rightarrow> Inl e | Inr ys \<Rightarrow> Inr (y # ys)))"

section \<open>Floats outside the reals, and their rendering\<close>

datatype fl = Finite real | PosInf | NegInf | NaN

text \<open>
  \<open>(recent_avg - past_avg) / past_avg * 100\<close> on numpy floats: dividing by zero does
  not raise, it gives an infinity, or NaN for \<open>0 / 0\<close>.
\<close>

definition percent_change :: "real \<Rightarrow> real \<Rightarrow> fl" where
  "percent_change recent_avg past_avg =
     (if past_avg \<noteq> 0 then Finite ((recent_avg - past_avg) / past_avg * 100)
      else if recent_avg - past_avg > 0 then PosInf
      else if recent_avg - past_avg < 0 then NegInf
      else NaN)"

text \<open>\<open>x > c\<close> and \<open>x < c\<close>: every comparison with NaN is false.\<close>

fun gt :: "fl \<Rightarrow> real \<Rightarrow> bool" where
  "gt (Finite x) c = (x > c)"
| "gt PosInf c = True"
| "gt NegInf c = False"
| "gt NaN c = False"

fun lt :: "fl \<Rightarrow> real \<Rightarrow> bool" where
  "lt (Finite x) c = (x < c)"
| "lt PosInf c = False"
| "lt NegInf c = True"
| "lt NaN c = False"

fun fl_abs :: "fl \<Rightarrow> fl" where
  "fl_abs (Finite x) = Finite \<bar>x\<bar>"
| "fl_abs PosInf = PosInf"
| "fl_abs NegInf = PosInf"
| "fl_abs NaN = NaN"

text \<open>
  How a number is rendered inside an f-string depends on its binary representation, so
  the three renderings in use are parameters of everything that builds a message:
  \<open>{x:.1f}\<close>, \<open>{x:+.1f}\<close> and \<open>{x}\<close>.
\<close>

record rendering =
  fmt_1f :: "fl \<Rightarrow> string"
  fmt_signed_1f :: "fl \<Rightarrow> string"
  fmt_plain :: "pyvalue \<Rightarrow> string"

section \<open>advanced\_utils.py: DataAnalyzer\<close>

record HealthTrend =
  metric_type :: string
  trend :: string
  change_percentage :: fl
  analysis :: string

text \<open>\<open>mean\<close> of a non-empty sequence, \<open>head(3)\<close>/\<open>[:3]\<close> and \<open>tail(3)\<close>/\<open>[-3:]\<close>.\<close>

definition mean :: "real list \<Rightarrow> real" where
  "mean xs = sum_list xs / real (length xs)"

definition head3 :: "'a list \<Rightarrow> 'a list" where
  "head3 xs = take 3 xs"

definition tail3 :: "'a list \<Rightarrow> 'a list" where
  "tail3 xs = drop (length xs - 3) xs"

text \<open>
  \<open>df.sort_values('timestamp')\<close>. The sort is modelled by a stable one; on a series
  that is already in chronological order it changes nothing.
\<close>

definition sort_values :: "reading list \<Rightarrow> reading list" where
  "sort_values df = sort_key timestamp df"

text \<open>
  The body of \<open>analyze_weight_trend\<close>, that is \<open>analyze_weight_trend.__wrapped__\<close>.
  The means read the values of the three last and the three first rows only.
\<close>

definition analyze_weight_trend_wrapped :: "rendering \<Rightarrow> reading list \<Rightarrow> exn + HealthTrend" where
  "analyze_weight_trend_wrapped R weight_data =
     (if weight_data = [] then
        Inr \<lparr>metric_type = ''weight'', trend = ''neutral'', change_percentage = Finite 0,
             analysis = ''Insufficient data''\<rparr>
      else
        let df = sort_values weight_data in
        if length df < 2 then
          Inr \<lparr>metric_type = ''weight'', trend = ''neutral'', change_percentage = Finite 0,
               analysis = ''Need more data points''\<rparr>
        else
          (case collect (number \<circ> value_of) (tail3 df) of
             Inl e \<Rightarrow> Inl e
           | Inr recent \<Rightarrow>
          (case collect (number \<circ> value_of) (head3 df) of
             Inl e \<Rightarrow> Inl e
           | Inr past \<Rightarrow>
               let recent_avg = mean recent;
                   past_avg = mean past;
                   change = percent_change recent_avg past_avg;
                   trend = (if gt change 1 then ''increasing''
                            else if lt change (- 1) then ''decreasing'' else ''stable'')
               in Inr \<lparr>metric_type = ''weight'', trend = trend, change_percentage = change,
                       analysis = ''Weight has '' @ trend @ '' by '' @ fmt_1f R (fl_abs change)
                                  @ ''% over the period''\<rparr>)))"

text \<open>
  \<open>@lru_cache(maxsize=100)\<close>: the arguments are hashed to look the call up before the
  function runs, and an unhashable argument is a \<open>TypeError\<close>. The memo table itself is
  not modelled: for a pure function it changes no result.
\<close>

definition lru_cache :: "('a \<Rightarrow> bool) \<Rightarrow> ('a \<Rightarrow> exn + 'b) \<Rightarrow> 'a \<Rightarrow> exn + 'b" where
  "lru_cache hashable f x = (if hashable x then f x else Inl (TypeError ''unhashable type''))"

text \<open>A Python \<open>list\<close> has no hash (\<open>list.__hash__\<close> is \<open>None\<close>), whatever it holds.\<close>

definition hashable_list :: "'a list \<Rightarrow> bool" where
  "hashable_list xs = False"

definition analyze_weight_trend :: "rendering \<Rightarrow> reading list \<Rightarrow> exn + HealthTrend" where
  "analyze_weight_trend R = lru_cache hashable_list (analyze_weight_trend_wrapped R)"

definition analyze_blood_pressure_trend :: "rendering \<Rightarrow> reading list \<Rightarrow> exn + HealthTrend" where
  "analyze_blood_pressure_trend R bp_data =
     (if bp_data = [] then
        Inr \<lparr>metric_type = ''blood_pressure'', trend = ''neutral'', change_percentage = Finite 0,
             analysis = ''Insufficient data''\<rparr>
      else
        let df = sort_values bp_data in
        if length df < 2 then
          Inr \<lparr>metric_type = ''blood_pressure'', trend = ''neutral'',
               change_percentage = Finite 0, analysis = ''Need more data points''\<rparr>
        else
          (case collect (pressure \<circ> value_of) df of
             Inl e \<Rightarrow> Inl e
           | Inr pairs \<Rightarrow>
               let systolic_data = map fst pairs;
                   diastolic_data = map snd pairs;
                   sys_change = mean (tail3 systolic_data) - mean (head3 systolic_data);
                   dia_change = mean (tail3 diastolic_data) - mean (head3 diastolic_data);
                   trend = (if \<bar>sys_change\<bar> > 10 \<or> \<bar>dia_change\<bar> > 10 then ''concerning''
                            else if \<bar>sys_change\<bar> > 5 \<or> \<bar>dia_change\<bar> > 5 then ''notable''
                            else ''stable'')
               in Inr \<lparr>metric_type = ''blood_pressure'', trend = trend,
                       change_percentage = Finite (max \<bar>sys_change\<bar> \<bar>dia_change\<bar>),
                       analysis = ''BP trend: Systolic '' @ fmt_signed_1f R (Finite sys_change)
                                  @ '', Diastolic '' @ fmt_signed_1f R (Finite dia_change)\<rparr>))"

text \<open>Series for testing: the six-point examples, one reading a day.\<close>

definition day :: "int \<Rightarrow> instant" where
  "day n = n * 86400000000"

definition six_weights :: "reading list" where
  "six_weights = [Weight 70 (day 1), Weight 70 (day 2), Weight 70 (day 3),
                  Weight 77 (day 4), Weight 77 (day 5), Weight 77 (day 6)]"

definition six_pressures :: "reading list" where
  "six_pressures = [Blood_Pressure 120 80 (day 1), Blood_Pressure 120 80 (day 2),
                    Blood_Pressure 120 80 (day 3), Blood_Pressure 140 80 (day 4),
                    Blood_Pressure 140 80 (day 5), Blood_Pressure 140 80 (day 6)]"

text \<open>A rendering for testing, which prints every number as a question mark.\<close>

definition blank :: rendering where
  "blank = \<lparr>fmt_1f = (\<lambda>x. ''?''), fmt_signed_1f = (\<lambda>x. ''?''), fmt_plain = (\<lambda>x. ''?'')\<rparr>"

section \<open>advanced\_utils.py: CacheManager\<close>

text \<open>
  A cache descriptor is the dict \<open>{'function': data_type, 'date': date}\<close>; the date is
  kept as a day number. \<open>_generate_key\<close> dumps the descriptor with sorted keys and takes
  the MD5 digest of the text. The digest is modelled by the canonical descriptor itself,
  that is MD5 is taken to be injective on descriptors.
\<close>

type_synonym key_data = "string \<times> int"
type_synonym cache_key = "string \<times> int"

definition generate_key :: "key_data \<Rightarrow> cache_key" where
  "generate_key data = data"

text \<open>
  The remote tier. A command raises when the server cannot be reached. An entry holds the
  JSON text that was stored, kept as the list that text decodes to; expiry is the
  server's own business and shows as an entry that is gone at a later lookup.
\<close>

record redis =
  available :: bool
  entries :: "cache_key \<rightharpoonup> reading list"

definition redis_get :: "redis \<Rightarrow> cache_key \<Rightarrow> exn + reading list option" where
  "redis_get r k = (if available r then Inr (entries r k) else Inl (Failure ''Connection refused''))"

definition redis_setex :: "redis \<Rightarrow> cache_key \<Rightarrow> int \<Rightarrow> reading list \<Rightarrow> exn + redis" where
  "redis_setex r k expire_seconds text =
     (if available r then Inr (r\<lparr>entries := (entries r)(k \<mapsto> text)\<rparr>)
      else Inl (Failure ''Connection refused''))"

text \<open>
  \<open>json.dumps(value)\<close>: every reading holds its timestamp as a \<open>datetime\<close>, which
  the encoder refuses, so only the empty list can be dumped.
\<close>

definition json_dumps :: "reading list \<Rightarrow> exn + reading list" where
  "json_dumps v =
     (if v = [] then Inr v
      else Inl (TypeError ''Object of type datetime is not JSON serializable''))"

record CacheManager =
  redis_client :: "redis option"
  local_cache :: "cache_key \<rightharpoonup> reading list"

text \<open>
  \<open>get_cached_data\<close>: the remote tier first, when there is one; any stored text is
  truthy and is returned decoded. Otherwise \<open>local_cache.get(cache_key)\<close>.
\<close>

definition get_cached_data :: "CacheManager \<Rightarrow> key_data \<Rightarrow> exn + reading list option" where
  "get_cached_data c key_data =
     (let cache_key = generate_key key_data in
      case redis_client c of
        None \<Rightarrow> Inr (local_cache c cache_key)
      | Some r \<Rightarrow>
          (case redis_get r cache_key of
             Inl e \<Rightarrow> Inl e
           | Inr (Some cached) \<Rightarrow> Inr (Some cached)
           | Inr None \<Rightarrow> Inr (local_cache c cache_key)))"

text \<open>
  \<open>cache_data\<close>: the remote write comes first and nothing catches what it raises, so
  the local write is reached only when the remote write returned (or there is no remote
  tier). An exception leaves the cache as it was.
\<close>

definition cache_data ::
  "CacheManager \<Rightarrow> key_data \<Rightarrow> reading list \<Rightarrow> int \<Rightarrow> exn + CacheManager" where
  "cache_data c key_data v expire_seconds =
     (let cache_key = generate_key key_data in
      case redis_client c of
        None \<Rightarrow> Inr (c\<lparr>local_cache := (local_cache c)(cache_key \<mapsto> v)\<rparr>)
      | Some r \<Rightarrow>
          (case json_dumps v of
             Inl e \<Rightarrow> Inl e
           | Inr text \<Rightarrow>
               (case redis_setex r cache_key expire_seconds text of
                  Inl e \<Rightarrow> Inl e
                | Inr r' \<Rightarrow>
                    Inr (c\<lparr>redis_client := Some r',
                           local_cache := (local_cache c)(cache_key \<mapsto> v)\<rparr>))))"

text \<open>Caches for testing: local only, and with a remote tier that is down.\<close>

definition local_only :: CacheManager where
  "local_only = \<lparr>redis_client = None, local_cache = Map.empty\<rparr>"

definition remote_down :: CacheManager where
  "remote_down = \<lparr>redis_client = Some \<lparr>available = False, entries = Map.empty\<rparr>,
                   local_cache = Map.empty\<rparr>"

definition remote_up :: CacheManager where
  "remote_up = \<lparr>redis_client = Some \<lparr>available = True, entries = Map.empty\<rparr>,
                 local_cache = Map.empty\<rparr>"


section \<open>The summary\<close>

text \<open>
  The entries of \<open>summary['metrics']\<close>. A key that is absent is \<open>None\<close>. The
  \<open>'timestamp'\<close> of a summary is what was stored there: the aggregator stores the text
  \<open>datetime.now().isoformat()\<close>, not the datetime.
\<close>

record trend_metrics =
  m_trend :: string
  m_analysis :: string
  m_latest :: "pyvalue option"

record heart_rate_metrics =
  hr_latest :: pyvalue
  variability :: real
  hr_min :: pyvalue
  hr_max :: pyvalue

record sleep_metrics =
  average_duration :: real
  quality :: pyvalue
  consistency :: real

record metrics =
  weight :: "trend_metrics option"
  blood_pressure :: "trend_metrics option"
  heart_rate :: "heart_rate_metrics option"
  sleep :: "sleep_metrics option"

datatype stamp = Isoformat instant | Datetime instant

record summary =
  generated :: stamp
  metrics :: metrics

section \<open>main.py: the state of HealthSync and \_safe\_sync\<close>

record sync_status =
  status :: string
  recorded :: instant
  error :: "string option"

text \<open>
  The fields of \<open>HealthSync\<close> that the synchronisation reads and writes. The batches of
  alerts handed to the notification channels are an effect on the outside; they are
  logged in \<open>notified\<close>, oldest first.
\<close>

record HealthSync =
  cache :: CacheManager
  last_sync_status :: "string \<rightharpoonup> sync_status"
  latest_metrics :: "string \<rightharpoonup> reading"
  cached_summary :: "summary option"
  active_alerts :: "string list"
  notified :: "string list list"

text \<open>\<open>datetime.now().date()\<close>: the day an instant falls on.\<close>

definition date_of :: "instant \<Rightarrow> int" where
  "date_of now = now div 86400000000"

definition record_success :: "string \<Rightarrow> instant \<Rightarrow> HealthSync \<Rightarrow> HealthSync" where
  "record_success data_type now hs =
     hs\<lparr>last_sync_status := (last_sync_status hs)
          (data_type \<mapsto> \<lparr>status = ''success'', recorded = now, error = None\<rparr>)\<rparr>"

definition record_error :: "string \<Rightarrow> instant \<Rightarrow> exn \<Rightarrow> HealthSync \<Rightarrow> HealthSync" where
  "record_error data_type now e hs =
     hs\<lparr>last_sync_status := (last_sync_status hs)
          (data_type \<mapsto> \<lparr>status = ''error'', recorded = now, error = Some (str e)\<rparr>)\<rparr>"

text \<open>
  The part of \<open>_safe_sync\<close> after a cache miss: fetch, record success, cache the
  result. Whatever is raised, by the fetch or by the cache write, is caught: the error is
  recorded for the source and the result is the empty list.
\<close>

definition fetch_and_cache ::
  "('w, reading list) operation \<Rightarrow> string \<Rightarrow> instant \<Rightarrow> HealthSync \<Rightarrow> 'w
     \<Rightarrow> reading list \<times> HealthSync \<times> 'w" where
  "fetch_and_cache sync_func data_type now hs w =
     (case sync_func w of
        (Inl e, w') \<Rightarrow> ([], record_error data_type now e hs, w')
      | (Inr data, w') \<Rightarrow>
          (let hs1 = record_success data_type now hs in
           case cache_data (cache hs1) (data_type, date_of now) data 3600 of
             Inl e \<Rightarrow> ([], record_error data_type now e hs1, w')
           | Inr c' \<Rightarrow> (data, hs1\<lparr>cache := c'\<rparr>, w')))"

text \<open>
  \<open>_safe_sync\<close>. \<open>if cached_data:\<close> tests truth, so a cached empty list counts as
  a miss, like no entry. A cache hit returns without touching the sync status.
\<close>

definition safe_sync ::
  "('w, reading list) operation \<Rightarrow> string \<Rightarrow> instant \<Rightarrow> HealthSync \<Rightarrow> 'w
     \<Rightarrow> reading list \<times> HealthSync \<times> 'w" where
  "safe_sync sync_func data_type now hs w =
     (case get_cached_data (cache hs) (data_type, date_of now) of
        Inl e \<Rightarrow> ([], record_error data_type now e hs, w)
      | Inr None \<Rightarrow> fetch_and_cache sync_func data_type now hs w
      | Inr (Some cached_data) \<Rightarrow>
          if cached_data \<noteq> [] then (cached_data, hs, w)
          else fetch_and_cache sync_func data_type now hs w)"

text \<open>
  \<open>HealthSync.__init__\<close>: no status yet for the four sources, nothing cached, no
  alerts. The cache is a parameter (it depends on \<open>REDIS_URL\<close>).
\<close>

definition init :: "CacheManager \<Rightarrow> HealthSync" where
  "init c = \<lparr>cache = c, last_sync_status = Map.empty, latest_metrics = Map.empty,
             cached_summary = None, active_alerts = [], notified = []\<rparr>"

text \<open>
  Sources for testing. The outside world counts the requests made to each adapter, so
  that a fetch that was skipped can be told from one that was made.
\<close>

definition serving :: "reading list \<Rightarrow> (nat, reading list) operation" where
  "serving data n = (Inr data, Suc n)"

definition failing :: "string \<Rightarrow> (nat, reading list) operation" where
  "failing msg n = (Inl (Failure msg), Suc n)"

text \<open>The state after a first call that fetched an empty heart-rate series on day 19000.\<close>

definition after_empty_fetch :: HealthSync where
  "after_empty_fetch =
     (record_success ''omron_hr'' (day 19000) (init local_only))
       \<lparr>cache := local_only\<lparr>local_cache := [(''omron_hr'', 19000) \<mapsto> []]\<rparr>\<rparr>"

text \<open>A heart-rate series of one reading, and a state whose cache holds it for day 19000.\<close>

definition one_rate :: "reading list" where
  "one_rate = [Heart_Rate 61 (day 19000)]"

definition after_fetch :: HealthSync where
  "after_fetch =
     (record_success ''omron_hr'' (day 19000) (init local_only))
       \<lparr>cache := local_only\<lparr>local_cache := [(''omron_hr'', 19000) \<mapsto> one_rate]\<rparr>\<rparr>"


section \<open>advanced\_utils.py: HealthMetricsAggregator\<close>

text \<open>\<open>np.std\<close>, the population standard deviation.\<close>

definition std :: "real list \<Rightarrow> real" where
  "std xs = sqrt (mean (map (\<lambda>x. (x - mean xs)\<^sup>2) xs))"

text \<open>A \<open>timedelta\<close> of \<open>d\<close> microseconds: \<open>d.total_seconds() / 3600\<close>.\<close>

definition total_seconds :: "int \<Rightarrow> real" where
  "total_seconds d = real_of_int d / 1000000"

definition hours :: "int \<Rightarrow> real" where
  "hours d = total_seconds d / 3600"

text \<open>
  The heart-rate stanza. The key is set only for a non-empty series. \<open>np.std\<close> runs,
  and needs numbers, only when there are at least two values; \<open>min\<close> and \<open>max\<close>
  of a single value are that value, whatever it is.
\<close>

definition heart_rate_section :: "reading list \<Rightarrow> exn + heart_rate_metrics option" where
  "heart_rate_section hr_data =
     (case hr_data of
        [] \<Rightarrow> Inr None
      | [d] \<Rightarrow> Inr (Some \<lparr>hr_latest = value_of d, variability = 0,
                          hr_min = value_of d, hr_max = value_of d\<rparr>)
      | d # d' # ds \<Rightarrow>
          (case collect (number \<circ> value_of) hr_data of
             Inl e \<Rightarrow> Inl e
           | Inr hr_values \<Rightarrow>
               Inr (Some \<lparr>hr_latest = Num (last hr_values), variability = std hr_values,
                          hr_min = Num (fold min (tl hr_values) (hd hr_values)),
                          hr_max = Num (fold max (tl hr_values) (hd hr_values))\<rparr>)))"

text \<open>The sleep stanza: the durations in hours, their mean and their deviation.\<close>

definition sleep_section :: "reading list \<Rightarrow> exn + sleep_metrics option" where
  "sleep_section sleep_data =
     (if sleep_data = [] then Inr None
      else
        (case collect interval sleep_data of
           Inl e \<Rightarrow> Inl e
         | Inr spans \<Rightarrow>
             let sleep_durations = map (\<lambda>(b, e). hours (e - b)) spans
             in Inr (Some \<lparr>average_duration = mean sleep_durations,
                           quality = value_of (last sleep_data),
                           consistency = std sleep_durations\<rparr>)))"

text \<open>\<open>data[-1]['value'] if data else None\<close>.\<close>

definition latest_value :: "reading list \<Rightarrow> pyvalue option" where
  "latest_value data = (if data = [] then None else Some (value_of (last data)))"

text \<open>
  \<open>generate_health_summary\<close> of the aggregator. The weight and blood-pressure keys are
  set unconditionally, from the trend of the series, empty or not. The weight analysis is
  the method of the analyzer object; it is a parameter of the first definition, and the
  second one is the aggregator with the analyzer's own, decorated, method.
\<close>

definition generate_health_summary_with ::
  "(reading list \<Rightarrow> exn + HealthTrend) \<Rightarrow> rendering \<Rightarrow> instant
     \<Rightarrow> reading list \<Rightarrow> reading list \<Rightarrow> reading list \<Rightarrow> reading list \<Rightarrow> exn + summary" where
  "generate_health_summary_with weight_analysis R now weight_data bp_data hr_data sleep_data =
     (case weight_analysis weight_data of
        Inl e \<Rightarrow> Inl e
      | Inr weight_trend \<Rightarrow>
     (case analyze_blood_pressure_trend R bp_data of
        Inl e \<Rightarrow> Inl e
      | Inr bp_trend \<Rightarrow>
     (case heart_rate_section hr_data of
        Inl e \<Rightarrow> Inl e
      | Inr hr \<Rightarrow>
     (case sleep_section sleep_data of
        Inl e \<Rightarrow> Inl e
      | Inr sl \<Rightarrow>
          Inr \<lparr>generated = Isoformat now,
               metrics = \<lparr>weight = Some \<lparr>m_trend = trend weight_trend,
                                          m_analysis = analysis weight_trend,
                                          m_latest = latest_value weight_data\<rparr>,
                          blood_pressure = Some \<lparr>m_trend = trend bp_trend,
                                                  m_analysis = analysis bp_trend,
                                                  m_latest = latest_value bp_data\<rparr>,
                          heart_rate = hr,
                          sleep = sl\<rparr>\<rparr>))))"

definition generate_health_summary ::
  "rendering \<Rightarrow> instant
     \<Rightarrow> reading list \<Rightarrow> reading list \<Rightarrow> reading list \<Rightarrow> reading list \<Rightarrow> exn + summary" where
  "generate_health_summary R = generate_health_summary_with (analyze_weight_trend R) R"

section \<open>advanced\_utils.py: NotificationManager\<close>

text \<open>The two signs that open an alert, as their UTF-8 bytes.\<close>

definition warning_sign :: string where
  "warning_sign = [CHR 0xE2, CHR 0x9A, CHR 0xA0, CHR 0xEF, CHR 0xB8, CHR 0x8F]"

definition information_sign :: string where
  "information_sign = [CHR 0xE2, CHR 0x84, CHR 0xB9, CHR 0xEF, CHR 0xB8, CHR 0x8F]"

text \<open>\<open>hr['max'] > 100\<close>: ordering a dict or a text against a number is a \<open>TypeError\<close>.\<close>

fun py_gt :: "pyvalue \<Rightarrow> real \<Rightarrow> exn + bool" where
  "py_gt (Num x) c = Inr (x > c)"
| "py_gt (Pressure s d) c = Inl (TypeError ''> not supported between dict and int'')"
| "py_gt (State st) c = Inl (TypeError ''> not supported between str and int'')"

definition blood_pressure_alerts :: "summary \<Rightarrow> string list" where
  "blood_pressure_alerts s =
     (case blood_pressure (metrics s) of
        None \<Rightarrow> []
      | Some bp \<Rightarrow>
          if m_trend bp = ''concerning''
          then [warning_sign @ '' Concerning blood pressure trend: '' @ m_analysis bp]
          else [])"

definition heart_rate_alerts :: "rendering \<Rightarrow> summary \<Rightarrow> exn + string list" where
  "heart_rate_alerts R s =
     (case heart_rate (metrics s) of
        None \<Rightarrow> Inr []
      | Some hr \<Rightarrow>
          (case py_gt (hr_max hr) 100 of
             Inl e \<Rightarrow> Inl e
           | Inr high \<Rightarrow>
               if high
               then Inr [warning_sign @ '' High heart rate detected: ''
                         @ fmt_plain R (hr_max hr) @ '' bpm'']
               else if variability hr > 20
               then Inr [information_sign @ '' High heart rate variability: ''
                         @ fmt_1f R (Finite (variability hr))]
               else Inr []))"

definition sleep_alerts :: "rendering \<Rightarrow> summary \<Rightarrow> string list" where
  "sleep_alerts R s =
     (case sleep (metrics s) of
        None \<Rightarrow> []
      | Some sl \<Rightarrow>
          (if average_duration sl < 6
           then [warning_sign @ '' Low sleep duration: ''
                 @ fmt_1f R (Finite (average_duration sl)) @ '' hours'']
           else [])
          @ (if consistency sl > 2
             then [information_sign @ '' Inconsistent sleep schedule detected'']
             else []))"

text \<open>\<open>check_health_metrics\<close>: the alerts in the fixed order blood pressure, heart rate, sleep.\<close>

definition check_health_metrics :: "rendering \<Rightarrow> summary \<Rightarrow> exn + string list" where
  "check_health_metrics R s =
     (case heart_rate_alerts R s of
        Inl e \<Rightarrow> Inl e
      | Inr hr_alerts \<Rightarrow> Inr (blood_pressure_alerts s @ hr_alerts @ sleep_alerts R s))"




text \<open>A night of sleep for testing: eight hours, ending on the morning of day 19000.\<close>

definition one_night :: "reading list" where
  "one_night = [Sleep ''deep'' (day 19000 - 28800000000) (day 19000 - 28800000000) (day 19000)]"


section \<open>main.py: the sync cycle\<close>

text \<open>
  The four source adapters, as operations on the outside world. Each is the adapter's
  method as the handlers decorate it, retries included.
\<close>

record 'w sources =
  get_weight_data :: "('w, reading list) operation"
  get_sleep_data :: "('w, reading list) operation"
  get_blood_pressure_data :: "('w, reading list) operation"
  get_heart_rate_data :: "('w, reading list) operation"

text \<open>
  \<open>_send_alert_notifications\<close> returns at once when there is no active alert;
  otherwise the active alerts go to the channels.
\<close>

definition send_alert_notifications :: "HealthSync \<Rightarrow> HealthSync" where
  "send_alert_notifications hs =
     (if active_alerts hs = [] then hs
      else hs\<lparr>notified := notified hs @ [active_alerts hs]\<rparr>)"

text \<open>The stanza \<open>if new_alerts != self.active_alerts: ...\<close> of the cycle.\<close>

definition update_alerts :: "string list \<Rightarrow> HealthSync \<Rightarrow> HealthSync" where
  "update_alerts new_alerts hs =
     (if new_alerts \<noteq> active_alerts hs
      then send_alert_notifications (hs\<lparr>active_alerts := new_alerts\<rparr>)
      else hs)"

text \<open>\<open>if data: self.latest_metrics[name] = data[-1]\<close>.\<close>

definition note_latest :: "string \<Rightarrow> reading list \<Rightarrow> HealthSync \<Rightarrow> HealthSync" where
  "note_latest name data hs =
     (if data = [] then hs
      else hs\<lparr>latest_metrics := (latest_metrics hs)(name \<mapsto> last data)\<rparr>)"

text \<open>
  The calendar loop: \<open>create_health_event\<close> catches what it raises and answers with a
  truth value, given here by \<open>calendar\<close>. The result is (success count, total count).
\<close>

definition create_events :: "(reading \<Rightarrow> bool) \<Rightarrow> reading list \<Rightarrow> nat \<times> nat" where
  "create_events calendar events = (length (filter calendar events), length events)"

text \<open>
  The four fetches of a cycle, in the order of the source: weight, sleep, blood pressure,
  heart rate. The result is the four series with the state and the world after them.
\<close>

definition fetch_all ::
  "'w sources \<Rightarrow> instant \<Rightarrow> HealthSync \<Rightarrow> 'w
     \<Rightarrow> (reading list \<times> reading list \<times> reading list \<times> reading list) \<times> HealthSync \<times> 'w" where
  "fetch_all S now hs w =
     (case safe_sync (get_weight_data S) ''withings_weight'' now hs w of
        (weight_data, hs1, w1) \<Rightarrow>
     (case safe_sync (get_sleep_data S) ''withings_sleep'' now hs1 w1 of
        (sleep_data, hs2, w2) \<Rightarrow>
     (case safe_sync (get_blood_pressure_data S) ''omron_bp'' now hs2 w2 of
        (bp_data, hs3, w3) \<Rightarrow>
     (case safe_sync (get_heart_rate_data S) ''omron_hr'' now hs3 w3 of
        (hr_data, hs4, w4) \<Rightarrow>
          ((weight_data, sleep_data, bp_data, hr_data), hs4, w4)))))"

text \<open>
  The body of \<open>sync_health_data\<close>, one attempt of the cycle. An exception of the
  aggregator or of the alert check leaves the \<open>try\<close> block: it is logged and raised
  again, with the state as the fetches left it. As for the aggregator, the weight
  analysis is a parameter of the first definition.
\<close>

definition sync_health_data_body_with ::
  "(reading list \<Rightarrow> exn + HealthTrend) \<Rightarrow> rendering \<Rightarrow> (reading \<Rightarrow> bool) \<Rightarrow> 'w sources
     \<Rightarrow> instant \<Rightarrow> (HealthSync \<times> 'w, nat \<times> nat) operation" where
  "sync_health_data_body_with weight_analysis R calendar S now st =
     (case fetch_all S now (fst st) (snd st) of
        ((weight_data, sleep_data, bp_data, hr_data), hs4, w4) \<Rightarrow>
          let hs5 = note_latest ''sleep'' sleep_data
                      (note_latest ''heart_rate'' hr_data
                        (note_latest ''blood_pressure'' bp_data
                          (note_latest ''weight'' weight_data hs4)))
          in
          (case generate_health_summary_with weight_analysis R now
                  weight_data bp_data hr_data sleep_data of
             Inl e \<Rightarrow> (Inl e, (hs5, w4))
           | Inr summary \<Rightarrow>
               (case check_health_metrics R summary of
                  Inl e \<Rightarrow> (Inl e, (hs5, w4))
                | Inr new_alerts \<Rightarrow>
                    (Inr (create_events calendar (weight_data @ sleep_data @ bp_data @ hr_data)),
                     (update_alerts new_alerts hs5, w4)))))"

definition sync_health_data_body ::
  "rendering \<Rightarrow> (reading \<Rightarrow> bool) \<Rightarrow> 'w sources \<Rightarrow> instant
     \<Rightarrow> (HealthSync \<times> 'w, nat \<times> nat) operation" where
  "sync_health_data_body R = sync_health_data_body_with (analyze_weight_trend R) R"

text \<open>
  \<open>sync_health_data\<close> as it is decorated, \<open>@retry_on_exception(retries=3, delay=1)\<close>.
  The few seconds of back-off between the attempts are not added to the clock.
\<close>

definition sync_health_data ::
  "rendering \<Rightarrow> (reading \<Rightarrow> bool) \<Rightarrow> 'w sources \<Rightarrow> instant \<Rightarrow> HealthSync \<Rightarrow> 'w
     \<Rightarrow> (HealthSync \<times> 'w, nat \<times> nat) retry_run" where
  "sync_health_data R calendar S now hs w =
     retry_on_exception 3 1 (sync_health_data_body R calendar S now) (hs, w)"

section \<open>main.py: HealthSync.generate\_health\_summary\<close>

text \<open>
  \<open>datetime.now() - self.cached_summary['timestamp']\<close>: a datetime minus a datetime
  is the time between them; a datetime minus a text is a \<open>TypeError\<close>.
\<close>

fun datetime_minus :: "instant \<Rightarrow> stamp \<Rightarrow> exn + int" where
  "datetime_minus now (Datetime t) = Inr (now - t)"
| "datetime_minus now (Isoformat t) =
     Inl (TypeError ''unsupported operand type(s) for -: datetime.datetime and str'')"

text \<open>
  The part after the cache test: the four fetches, in the order of the keyword arguments
  (weight, blood pressure, heart rate, sleep), the aggregator, and the store of the result.
\<close>

definition fresh_summary ::
  "rendering \<Rightarrow> 'w sources \<Rightarrow> instant \<Rightarrow> HealthSync \<Rightarrow> 'w \<Rightarrow> (exn + summary) \<times> HealthSync \<times> 'w" where
  "fresh_summary R S now hs w =
     (case safe_sync (get_weight_data S) ''withings_weight'' now hs w of
        (weight_data, hs1, w1) \<Rightarrow>
     (case safe_sync (get_blood_pressure_data S) ''omron_bp'' now hs1 w1 of
        (bp_data, hs2, w2) \<Rightarrow>
     (case safe_sync (get_heart_rate_data S) ''omron_hr'' now hs2 w2 of
        (hr_data, hs3, w3) \<Rightarrow>
     (case safe_sync (get_sleep_data S) ''withings_sleep'' now hs3 w3 of
        (sleep_data, hs4, w4) \<Rightarrow>
          (case generate_health_summary R now weight_data bp_data hr_data sleep_data of
             Inl e \<Rightarrow> (Inl e, hs4, w4)
           | Inr summary \<Rightarrow> (Inr summary, hs4\<lparr>cached_summary := Some summary\<rparr>, w4))))))"

definition health_sync_generate_health_summary ::
  "rendering \<Rightarrow> 'w sources \<Rightarrow> instant \<Rightarrow> HealthSync \<Rightarrow> 'w \<Rightarrow> (exn + summary) \<times> HealthSync \<times> 'w" where
  "health_sync_generate_health_summary R S now hs w =
     (case cached_summary hs of
        None \<Rightarrow> fresh_summary R S now hs w
      | Some cached \<Rightarrow>
          (case datetime_minus now (generated cached) of
             Inl e \<Rightarrow> (Inl e, hs, w)
           | Inr cache_age \<Rightarrow>
               if total_seconds cache_age < 3600 then (Inr cached, hs, w)
               else fresh_summary R S now hs w))"


definition weight_down :: "nat sources" where
  "weight_down = \<lparr>get_weight_data = failing ''Connection timed out'',
                   get_sleep_data = serving one_night,
                   get_blood_pressure_data = serving six_pressures,
                   get_heart_rate_data = serving one_rate\<rparr>"


section \<open>utils.py: RateLimiter\<close>









section \<open>Retry: proofs\<close>










section \<open>DataAnalyzer: proofs\<close>

lemma sort_values_sorted: "sorted (map timestamp df) \<Longrightarrow> sort_values df = df"
  by (simp add: sort_values_def sort_key_id_if_sorted)

lemma collect_length: "collect f xs = Inr ys \<Longrightarrow> length ys = length xs"
  by (induction xs arbitrary: ys) (auto split: sum.splits)








lemma six_weights_sorted: "sorted (map timestamp six_weights)"
  by (simp add: six_weights_def day_def)

text \<open>
  The body of the weight analysis follows the rule: fewer than two points are neutral
  with magnitude 0; otherwise the change is taken between the mean of the first three and
  the mean of the last three values, and classified at plus and minus one percent.
\<close>

lemma analyze_weight_trend_wrapped_short:
  "length weight_data < 2 \<Longrightarrow>
   \<exists>T. analyze_weight_trend_wrapped R weight_data = Inr T \<and>
       trend T = ''neutral'' \<and> change_percentage T = Finite 0"
  by (simp add: analyze_weight_trend_wrapped_def sort_values_def Let_def)

lemma analyze_weight_trend_wrapped_rule:
  assumes "sorted (map timestamp weight_data)"
    and "2 \<le> length weight_data"
    and "collect (number \<circ> value_of) (tail3 weight_data) = Inr recent"
    and "collect (number \<circ> value_of) (head3 weight_data) = Inr past"
    and "change = percent_change (mean recent) (mean past)"
  shows "analyze_weight_trend_wrapped R weight_data =
           Inr \<lparr>metric_type = ''weight'',
                trend = (if gt change 1 then ''increasing''
                         else if lt change (- 1) then ''decreasing'' else ''stable''),
                change_percentage = change,
                analysis = ''Weight has ''
                  @ (if gt change 1 then ''increasing''
                     else if lt change (- 1) then ''decreasing'' else ''stable'')
                  @ '' by '' @ fmt_1f R (fl_abs change) @ ''% over the period''\<rparr>"
proof -
  from assms(2) have ne: "weight_data \<noteq> []" and len: "\<not> length weight_data < 2" by auto
  show ?thesis
    unfolding analyze_weight_trend_wrapped_def
    by (simp add: ne len sort_values_sorted [OF assms(1)] assms(3) assms(4) Let_def
          assms(5) [symmetric])
qed

lemma six_weights_wrapped:
  "analyze_weight_trend_wrapped R six_weights =
     Inr \<lparr>metric_type = ''weight'', trend = ''increasing'', change_percentage = Finite 10,
          analysis = ''Weight has increasing by '' @ fmt_1f R (Finite 10)
                     @ ''% over the period''\<rparr>"
proof -
  have len: "2 \<le> length six_weights" by (simp add: six_weights_def)
  have r: "collect (number \<circ> value_of) (tail3 six_weights) = Inr [77, 77, 77]"
    by (simp add: six_weights_def tail3_def)
  have p: "collect (number \<circ> value_of) (head3 six_weights) = Inr [70, 70, 70]"
    by (simp add: six_weights_def head3_def)
  have c: "Finite 10 = percent_change (mean [77, 77, 77]) (mean [70, 70, 70])"
    by (simp add: percent_change_def mean_def)
  show ?thesis
    using analyze_weight_trend_wrapped_rule [OF six_weights_sorted len r p c, of R]
    by simp
qed

text \<open>
  C3. The weight analysis as it is called, through \<open>lru_cache\<close>: the series is a list,
  a list cannot be hashed, and the call raises \<open>TypeError\<close> before the body runs. On
  the six-point series 70, 70, 70, 77, 77, 77, where the rule gives a change of 10 percent
  and the trend increasing, the call returns no trend at all.
\<close>

theorem analyze_weight_trend_six_weights_raises:
  "analyze_weight_trend R six_weights = Inl (TypeError ''unhashable type'')
   \<and> analyze_weight_trend R [] = Inl (TypeError ''unhashable type'')"
  by (simp add: analyze_weight_trend_def lru_cache_def hashable_list_def)


section \<open>CacheManager: proofs\<close>

text \<open>
  C6, as stated, fails: with a remote tier that cannot be reached, \<open>cache_data\<close>
  raises to the caller, and the local tier has not been written.
\<close>

theorem cache_data_remote_failure_raises:
  "cache_data remote_down (''withings_weight'', 19000) [] 3600
     = Inl (Failure ''Connection refused'')"
  by (simp add: cache_data_def remote_down_def generate_key_def json_dumps_def redis_setex_def)

text \<open>
  C6, amended. Without a remote tier, and with a remote tier whose write succeeds,
  \<open>cache_data\<close> returns normally and the value is in the local cache under the key of
  the descriptor. When the remote write fails, the exception goes to the caller and no
  cache is returned: the local tier keeps what it had.
\<close>

theorem cache_data_local_write:
  "(redis_client c = None \<longrightarrow>
      (\<exists>c'. cache_data c d v ttl = Inr c' \<and> local_cache c' (generate_key d) = Some v))
   \<and> (redis_client c = Some r \<and> json_dumps v = Inr js \<and>
        redis_setex r (generate_key d) ttl js = Inr r' \<longrightarrow>
      (\<exists>c'. cache_data c d v ttl = Inr c' \<and> local_cache c' (generate_key d) = Some v
            \<and> redis_client c' = Some r'))
   \<and> (redis_client c = Some r \<and> json_dumps v = Inr js \<and>
        redis_setex r (generate_key d) ttl js = Inl e \<longrightarrow>
      cache_data c d v ttl = Inl e)
   \<and> (redis_client c = Some r \<and> json_dumps v = Inl e \<longrightarrow>
      cache_data c d v ttl = Inl e)"
  by (simp add: cache_data_def Let_def)

theorem cache_data_local_write_witness:
  "redis_client local_only = None
   \<and> local_cache (projr (cache_data local_only (''omron_hr'', 19000) [Heart_Rate 61 (day 19000)] 3600))
       (generate_key (''omron_hr'', 19000)) = Some [Heart_Rate 61 (day 19000)]
   \<and> redis_client remote_up = Some \<lparr>available = True, entries = Map.empty\<rparr>
   \<and> json_dumps [] = Inr []
   \<and> local_cache (projr (cache_data remote_up (''omron_hr'', 19000) [] 3600))
       (generate_key (''omron_hr'', 19000)) = Some []
   \<and> redis_client remote_down = Some \<lparr>available = False, entries = Map.empty\<rparr>
   \<and> redis_setex \<lparr>available = False, entries = Map.empty\<rparr> (generate_key (''omron_hr'', 19000))
        3600 [] = Inl (Failure ''Connection refused'')
   \<and> cache_data remote_down (''omron_hr'', 19000) [] 3600 = Inl (Failure ''Connection refused'')
   \<and> json_dumps [Heart_Rate 61 (day 19000)]
        = Inl (TypeError ''Object of type datetime is not JSON serializable'')
   \<and> cache_data remote_up (''omron_hr'', 19000) [Heart_Rate 61 (day 19000)] 3600
        = Inl (TypeError ''Object of type datetime is not JSON serializable'')"
proof -
  let ?d = "(''omron_hr'', 19000::int)"
  let ?v = "[Heart_Rate 61 (day 19000)]"
  let ?up = "\<lparr>available = True, entries = Map.empty\<rparr>"
  let ?down = "\<lparr>available = False, entries = Map.empty\<rparr>"
  have a: "redis_client local_only = None" by (simp add: local_only_def)
  have b: "redis_client remote_up = Some ?up" by (simp add: remote_up_def)
  have c: "redis_client remote_down = Some ?down" by (simp add: remote_down_def)
  have j: "json_dumps [] = Inr []" by (simp add: json_dumps_def)
  have j': "json_dumps ?v = Inl (TypeError ''Object of type datetime is not JSON serializable'')"
    by (simp add: json_dumps_def)
  have s: "redis_setex ?up (generate_key ?d) 3600 []
             = Inr (?up\<lparr>entries := (entries ?up)(generate_key ?d \<mapsto> [])\<rparr>)"
    by (simp add: redis_setex_def)
  have s': "redis_setex ?down (generate_key ?d) 3600 [] = Inl (Failure ''Connection refused'')"
    by (simp add: redis_setex_def)
  from cache_data_local_write [where c = local_only and d = "?d" and v = "?v" and ttl = 3600] a
  have 1: "local_cache (projr (cache_data local_only ?d ?v 3600)) (generate_key ?d) = Some ?v"
    by auto
  from cache_data_local_write [where c = remote_up and r = "?up" and v = "[]" and js = "[]" and d = "?d" and ttl = 3600
      and r' = "?up\<lparr>entries := (entries ?up)(generate_key ?d \<mapsto> [])\<rparr>"] b j s
  have 2: "local_cache (projr (cache_data remote_up ?d [] 3600)) (generate_key ?d) = Some []"
    by auto
  from cache_data_local_write [where c = remote_down and r = "?down" and v = "[]" and js = "[]"
      and d = "?d" and ttl = 3600 and e = "Failure ''Connection refused''"] c j s'
  have 3: "cache_data remote_down ?d [] 3600 = Inl (Failure ''Connection refused'')"
    by simp
  from cache_data_local_write [where c = remote_up and r = "?up" and v = "?v" and d = "?d"
      and ttl = 3600 and e = "TypeError ''Object of type datetime is not JSON serializable''"] b j'
  have 4: "cache_data remote_up ?d ?v 3600
             = Inl (TypeError ''Object of type datetime is not JSON serializable'')"
    by simp
  show ?thesis using a b c j j' s' 1 2 3 4 by simp
qed


section \<open>\_safe\_sync: proofs\<close>

lemma safe_sync_hit:
  assumes "get_cached_data (cache hs) (data_type, date_of now) = Inr (Some cached_data)"
    and "cached_data \<noteq> []"
  shows "safe_sync sync_func data_type now hs w = (cached_data, hs, w)"
  using assms by (simp add: safe_sync_def)

lemma safe_sync_miss:
  assumes "get_cached_data (cache hs) (data_type, date_of now) = Inr None
           \<or> get_cached_data (cache hs) (data_type, date_of now) = Inr (Some [])"
  shows "safe_sync sync_func data_type now hs w = fetch_and_cache sync_func data_type now hs w"
  using assms by (auto simp: safe_sync_def)

lemma get_cached_data_local:
  "redis_client c = None \<Longrightarrow> get_cached_data c d = Inr (local_cache c (generate_key d))"
  by (simp add: get_cached_data_def)

lemma cache_data_local:
  "redis_client c = None \<Longrightarrow>
   cache_data c d v ttl = Inr (c\<lparr>local_cache := (local_cache c)(generate_key d \<mapsto> v)\<rparr>)"
  by (simp add: cache_data_def)

text \<open>
  C5, as stated, fails for a fetched result that is empty: it is written to the cache,
  and the next call for the same source on the same day makes the request again (the
  adapter has been asked twice).
\<close>

theorem safe_sync_empty_result_refetched:
  "safe_sync (serving []) ''omron_hr'' (day 19000) (init local_only) 0
     = ([], after_empty_fetch, 1)
   \<and> local_cache (cache after_empty_fetch) (generate_key (''omron_hr'', 19000)) = Some []
   \<and> snd (snd (safe_sync (serving []) ''omron_hr'' (day 19000 + 60000000)
         after_empty_fetch 1)) = 2"
proof -
  have d1: "date_of (day 19000) = 19000" by (simp add: date_of_def day_def)
  have d2: "date_of (day 19000 + 60000000) = 19000" by (simp add: date_of_def day_def)
  have first: "safe_sync (serving []) ''omron_hr'' (day 19000) (init local_only) 0
                 = ([], after_empty_fetch, 1)"
    by (simp add: safe_sync_def fetch_and_cache_def get_cached_data_def cache_data_def
          generate_key_def init_def local_only_def serving_def record_success_def d1
          after_empty_fetch_def)
  have held: "local_cache (cache after_empty_fetch) (generate_key (''omron_hr'', 19000))
                = Some []"
    by (simp add: after_empty_fetch_def generate_key_def)
  have second: "snd (snd (safe_sync (serving []) ''omron_hr'' (day 19000 + 60000000)
                  after_empty_fetch 1)) = 2"
    by (simp add: safe_sync_def fetch_and_cache_def get_cached_data_def cache_data_def
          generate_key_def init_def local_only_def serving_def record_success_def d2
          after_empty_fetch_def)
  show ?thesis
    by (intro conjI) (rule first, rule held, rule second)
qed

text \<open>
  C5, amended to non-empty results (with the local tier; a remote tier refuses every
  non-empty result, see \<open>json_dumps\<close>). A call that misses the cache and fetches a
  non-empty result returns it and leaves it in the cache under (source, date). From then
  on, for any instant of the same date and whatever the adapter would answer, a call in
  that state, or in any later state whose cache still holds the entry, returns the cached
  data and leaves the state and the outside world as they were: no request is made.
\<close>

theorem safe_sync_same_day_cached:
  assumes "redis_client (cache hs) = None"
    and "local_cache (cache hs) (generate_key (src, date_of now)) = None
         \<or> local_cache (cache hs) (generate_key (src, date_of now)) = Some []"
    and "sync_func w = (Inr data, w')"
    and "data \<noteq> []"
    and "date_of now2 = date_of now"
    and "redis_client (cache hs2) = None"
    and "local_cache (cache hs2) (generate_key (src, date_of now)) = Some data"
  shows "\<exists>hs'. safe_sync sync_func src now hs w = (data, hs', w')
            \<and> local_cache (cache hs') (generate_key (src, date_of now)) = Some data
            \<and> safe_sync f2 src now2 hs' w2 = (data, hs', w2)
            \<and> safe_sync f2 src now2 hs2 w2 = (data, hs2, w2)"
proof -
  let ?hs1 = "record_success src now hs"
  let ?hs' = "?hs1\<lparr>cache := (cache ?hs1)
                 \<lparr>local_cache := (local_cache (cache ?hs1))(generate_key (src, date_of now) \<mapsto> data)\<rparr>\<rparr>"
  have c1: "redis_client (cache ?hs1) = None" using assms(1) by (simp add: record_success_def)
  have miss: "get_cached_data (cache hs) (src, date_of now) = Inr None
              \<or> get_cached_data (cache hs) (src, date_of now) = Inr (Some [])"
    using assms(2) by (simp add: get_cached_data_local [OF assms(1)])
  have first: "safe_sync sync_func src now hs w = (data, ?hs', w')"
    by (simp add: safe_sync_miss [OF miss] fetch_and_cache_def assms(3) Let_def
          cache_data_local [OF c1])
  have held: "local_cache (cache ?hs') (generate_key (src, date_of now)) = Some data"
    by simp
  have r': "redis_client (cache ?hs') = None" using c1 by simp
  have hit1: "get_cached_data (cache ?hs') (src, date_of now2) = Inr (Some data)"
    using get_cached_data_local [OF r', of "(src, date_of now2)"] by (simp add: assms(5))
  have hit2: "get_cached_data (cache hs2) (src, date_of now2) = Inr (Some data)"
    using get_cached_data_local [OF assms(6), of "(src, date_of now2)"]
    by (simp add: assms(5) assms(7))
  show ?thesis
  proof (rule exI [of _ "?hs'"], intro conjI)
    show "safe_sync sync_func src now hs w = (data, ?hs', w')" by (rule first)
    show "local_cache (cache ?hs') (generate_key (src, date_of now)) = Some data" by (rule held)
    show "safe_sync f2 src now2 ?hs' w2 = (data, ?hs', w2)"
      by (rule safe_sync_hit [OF hit1 assms(4)])
    show "safe_sync f2 src now2 hs2 w2 = (data, hs2, w2)"
      by (rule safe_sync_hit [OF hit2 assms(4)])
  qed
qed

theorem safe_sync_same_day_cached_witness:
  "redis_client (cache (init local_only)) = None
   \<and> local_cache (cache (init local_only)) (generate_key (''omron_hr'', date_of (day 19000))) = None
   \<and> serving one_rate 0 = (Inr one_rate, 1)
   \<and> one_rate \<noteq> []
   \<and> date_of (day 19000 + 60000000) = date_of (day 19000)
   \<and> redis_client (cache after_fetch) = None
   \<and> local_cache (cache after_fetch) (generate_key (''omron_hr'', date_of (day 19000)))
       = Some one_rate
   \<and> fst (safe_sync (serving one_rate) ''omron_hr'' (day 19000) (init local_only) 0) = one_rate
   \<and> snd (snd (safe_sync (serving one_rate) ''omron_hr'' (day 19000) (init local_only) 0)) = 1
   \<and> safe_sync (failing ''offline'') ''omron_hr'' (day 19000 + 60000000) after_fetch 5
       = (one_rate, after_fetch, 5)"
proof -
  have d1: "date_of (day 19000) = 19000" by (simp add: date_of_def day_def)
  have h1: "redis_client (cache (init local_only)) = None"
    by (simp add: init_def local_only_def)
  have h2: "local_cache (cache (init local_only)) (generate_key (''omron_hr'', date_of (day 19000)))
              = None"
    by (simp add: init_def local_only_def)
  have h3: "serving one_rate 0 = (Inr one_rate, 1)" by (simp add: serving_def)
  have h4: "one_rate \<noteq> []" by (simp add: one_rate_def)
  have h5: "date_of (day 19000 + 60000000) = date_of (day 19000)"
    by (simp add: date_of_def day_def)
  have h6: "redis_client (cache after_fetch) = None"
    by (simp add: after_fetch_def local_only_def)
  have h7: "local_cache (cache after_fetch) (generate_key (''omron_hr'', date_of (day 19000)))
              = Some one_rate"
    by (simp add: after_fetch_def generate_key_def d1)
  have h2': "local_cache (cache (init local_only)) (generate_key (''omron_hr'', date_of (day 19000)))
               = None
             \<or> local_cache (cache (init local_only))
                 (generate_key (''omron_hr'', date_of (day 19000))) = Some []"
    using h2 by (rule disjI1)
  from safe_sync_same_day_cached [where hs = "init local_only" and src = "''omron_hr''"
      and now = "day 19000" and sync_func = "serving one_rate" and w = 0 and w' = 1
      and data = one_rate and ?now2.0 = "day 19000 + 60000000" and ?hs2.0 = after_fetch
      and ?f2.0 = "failing ''offline''" and ?w2.0 = 5, OF h1 h2' h3 h4 h5 h6 h7]
  obtain hs' where
    a: "safe_sync (serving one_rate) ''omron_hr'' (day 19000) (init local_only) 0
          = (one_rate, hs', 1)"
    and b: "safe_sync (failing ''offline'') ''omron_hr'' (day 19000 + 60000000) after_fetch 5
          = (one_rate, after_fetch, 5)"
    by (elim exE conjE)
  have a1: "fst (safe_sync (serving one_rate) ''omron_hr'' (day 19000) (init local_only) 0)
              = one_rate"
    by (simp add: a)
  have a2: "snd (snd (safe_sync (serving one_rate) ''omron_hr'' (day 19000) (init local_only) 0))
              = 1"
    by (simp add: a)
  show ?thesis
    by (intro conjI) (rule h1, rule h2, rule h3, rule h4, rule h5, rule h6, rule h7,
        rule a1, rule a2, rule b)
qed


section \<open>Aggregator: proofs\<close>












section \<open>The sync cycle: proofs\<close>


lemma record_success_frame:
  "active_alerts (record_success src now hs) = active_alerts hs"
  "notified (record_success src now hs) = notified hs"
  "cached_summary (record_success src now hs) = cached_summary hs"
  "latest_metrics (record_success src now hs) = latest_metrics hs"
  "cache (record_success src now hs) = cache hs"
  by (simp_all add: record_success_def)

lemma record_error_frame:
  "active_alerts (record_error src now e hs) = active_alerts hs"
  "notified (record_error src now e hs) = notified hs"
  "cached_summary (record_error src now e hs) = cached_summary hs"
  "latest_metrics (record_error src now e hs) = latest_metrics hs"
  "cache (record_error src now e hs) = cache hs"
  by (simp_all add: record_error_def)

lemma fetch_and_cache_frame:
  assumes "fetch_and_cache f src now hs w = (d, hs', w')"
  shows "active_alerts hs' = active_alerts hs \<and> notified hs' = notified hs
         \<and> cached_summary hs' = cached_summary hs \<and> latest_metrics hs' = latest_metrics hs"
  using assms
  by (auto simp: fetch_and_cache_def Let_def record_success_frame record_error_frame
      split: prod.splits sum.splits)

lemma safe_sync_frame:
  assumes "safe_sync f src now hs w = (d, hs', w')"
  shows "active_alerts hs' = active_alerts hs \<and> notified hs' = notified hs
         \<and> cached_summary hs' = cached_summary hs \<and> latest_metrics hs' = latest_metrics hs"
proof (cases "safe_sync f src now hs w = fetch_and_cache f src now hs w")
  case True
  with assms show ?thesis using fetch_and_cache_frame by metis
next
  case False
  with assms show ?thesis
    by (auto simp: safe_sync_def record_error_frame split: sum.splits option.splits if_splits)
qed




lemmas cycle_unfold =
  sync_health_data_body_with_def fetch_all_def safe_sync_def fetch_and_cache_def
  serving_def failing_def get_cached_data_def cache_data_def generate_key_def init_def
  local_only_def record_success_def record_error_def generate_health_summary_with_def
  analyze_weight_trend_wrapped_def analyze_blood_pressure_trend_def heart_rate_section_def
  sleep_section_def check_health_metrics_def heart_rate_alerts_def blood_pressure_alerts_def
  sleep_alerts_def latest_value_def create_events_def note_latest_def update_alerts_def
  send_alert_notifications_def blank_def

lemma date_of_day: "date_of (day 19000) = 19000"
  by (simp add: date_of_def day_def)




section \<open>The summary cache and the whole cycle: proofs\<close>

lemma generate_health_summary_raises:
  "generate_health_summary R now weight_data bp_data hr_data sleep_data
     = Inl (TypeError ''unhashable type'')"
  by (simp add: generate_health_summary_def generate_health_summary_with_def
        analyze_weight_trend_def lru_cache_def hashable_list_def)

lemma generate_health_summary_with_stamp:
  "generate_health_summary_with wa R now weight_data bp_data hr_data sleep_data = Inr s
   \<Longrightarrow> generated s = Isoformat now"
  by (auto simp: generate_health_summary_with_def split: sum.splits)

lemma fresh_summary_raises:
  "fst (fresh_summary R S now hs w) = Inl (TypeError ''unhashable type'')"
  by (simp add: fresh_summary_def generate_health_summary_raises split: prod.splits)

lemma fresh_summary_stores_nothing:
  "cached_summary (fst (snd (fresh_summary R S now hs w))) = cached_summary hs"
proof -
  obtain d1 hs1 w1 where 1:
    "safe_sync (get_weight_data S) ''withings_weight'' now hs w = (d1, hs1, w1)"
    by (cases "safe_sync (get_weight_data S) ''withings_weight'' now hs w") auto
  obtain d2 hs2 w2 where 2:
    "safe_sync (get_blood_pressure_data S) ''omron_bp'' now hs1 w1 = (d2, hs2, w2)"
    by (cases "safe_sync (get_blood_pressure_data S) ''omron_bp'' now hs1 w1") auto
  obtain d3 hs3 w3 where 3:
    "safe_sync (get_heart_rate_data S) ''omron_hr'' now hs2 w2 = (d3, hs3, w3)"
    by (cases "safe_sync (get_heart_rate_data S) ''omron_hr'' now hs2 w2") auto
  obtain d4 hs4 w4 where 4:
    "safe_sync (get_sleep_data S) ''withings_sleep'' now hs3 w3 = (d4, hs4, w4)"
    by (cases "safe_sync (get_sleep_data S) ''withings_sleep'' now hs3 w3") auto
  have "fst (snd (fresh_summary R S now hs w)) = hs4"
    by (simp add: fresh_summary_def 1 2 3 4 generate_health_summary_raises)
  then show ?thesis
    using safe_sync_frame [OF 1] safe_sync_frame [OF 2] safe_sync_frame [OF 3]
      safe_sync_frame [OF 4] by simp
qed

text \<open>
  C7. \<open>HealthSync.generate_health_summary\<close> never serves a cached summary. A summary
  built by the aggregator carries its time as text, so the age test raises
  \<open>TypeError\<close> whenever such a summary is cached, however young it is. Without a
  cached summary the fresh one is never built either: the aggregator raises on the weight
  analysis, and nothing is stored.
\<close>

theorem health_sync_generate_health_summary_raises:
  "health_sync_generate_health_summary R S now
       (hs\<lparr>cached_summary := Some \<lparr>generated = Isoformat (now - 10000000), metrics = m\<rparr>\<rparr>) w
     = (Inl (TypeError ''unsupported operand type(s) for -: datetime.datetime and str''),
        hs\<lparr>cached_summary := Some \<lparr>generated = Isoformat (now - 10000000), metrics = m\<rparr>\<rparr>, w)
   \<and> fst (health_sync_generate_health_summary R S now (hs\<lparr>cached_summary := None\<rparr>) w)
       = Inl (TypeError ''unhashable type'')
   \<and> cached_summary (fst (snd (health_sync_generate_health_summary R S now
         (hs\<lparr>cached_summary := None\<rparr>) w))) = None"
proof (intro conjI)
  show "health_sync_generate_health_summary R S now
          (hs\<lparr>cached_summary := Some \<lparr>generated = Isoformat (now - 10000000), metrics = m\<rparr>\<rparr>) w
        = (Inl (TypeError ''unsupported operand type(s) for -: datetime.datetime and str''),
           hs\<lparr>cached_summary := Some \<lparr>generated = Isoformat (now - 10000000), metrics = m\<rparr>\<rparr>, w)"
    by (simp add: health_sync_generate_health_summary_def)
  show "fst (health_sync_generate_health_summary R S now (hs\<lparr>cached_summary := None\<rparr>) w)
          = Inl (TypeError ''unhashable type'')"
    by (simp add: health_sync_generate_health_summary_def fresh_summary_raises)
  show "cached_summary (fst (snd (health_sync_generate_health_summary R S now
          (hs\<lparr>cached_summary := None\<rparr>) w))) = None"
    by (simp add: health_sync_generate_health_summary_def fresh_summary_stores_nothing)
qed

lemma range_py_3: "range_py 3 = [0, 1, 2]"
  by (simp add: range_py_def numeral_3_eq_3)

text \<open>What \<open>_safe_sync\<close> does by design: a fetch that fails is caught, recorded for its
  source alone, and answered with the empty list.\<close>

lemma safe_sync_isolates_failure:
  assumes "get_cached_data (cache hs) (src, date_of now) = Inr None"
    and "sync_func w = (Inl e, w')"
  shows "safe_sync sync_func src now hs w = ([], record_error src now e hs, w')"
  using assms by (simp add: safe_sync_def fetch_and_cache_def)

lemma record_error_status:
  "last_sync_status (record_error src now e hs) src
     = Some \<lparr>status = ''error'', recorded = now, error = Some (str e)\<rparr>"
  "other \<noteq> src \<Longrightarrow> last_sync_status (record_error src now e hs) other = last_sync_status hs other"
  by (simp_all add: record_error_def)

text \<open>Every attempt of the cycle raises, whatever the sources deliver.\<close>

lemma sync_health_data_body_raises:
  "fst (sync_health_data_body R cal S now st) = Inl (TypeError ''unhashable type'')"
  by (simp add: sync_health_data_body_def sync_health_data_body_with_def Let_def
      generate_health_summary_with_def analyze_weight_trend_def lru_cache_def hashable_list_def
      split: prod.splits)

lemma retry_three_always_failing:
  assumes "\<And>s. fst (f s) = Inl e"
  shows "outcome (retry_on_exception 3 1 f s) = Inl e
         \<and> invocations (retry_on_exception 3 1 f s) = 3
         \<and> sleeps (retry_on_exception 3 1 f s) = [1, 2]"
proof -
  obtain s1 where 1: "f s = (Inl e, s1)" using assms [of s] by (cases "f s") auto
  obtain s2 where 2: "f s1 = (Inl e, s2)" using assms [of s1] by (cases "f s1") auto
  obtain s3 where 3: "f s2 = (Inl e, s3)" using assms [of s2] by (cases "f s2") auto
  show ?thesis
    by (simp add: retry_on_exception_def range_py_3 1 2 3 raise_last_def)
qed

lemma sync_health_data_always_raises:
  "outcome (sync_health_data R cal S now hs w) = Inl (TypeError ''unhashable type'')
   \<and> invocations (sync_health_data R cal S now hs w) = 3"
  using retry_three_always_failing
    [of "sync_health_data_body R cal S now" "TypeError ''unhashable type''" "(hs, w)",
      OF sync_health_data_body_raises]
  by (simp add: sync_health_data_def)

lemmas weight_down_unfold =
  sync_health_data_body_with_def fetch_all_def safe_sync_def fetch_and_cache_def
  serving_def failing_def get_cached_data_def cache_data_def generate_key_def init_def
  local_only_def record_success_def record_error_def generate_health_summary_with_def
  note_latest_def sync_health_data_body_def analyze_weight_trend_def lru_cache_def
  hashable_list_def weight_down_def date_of_day one_rate_def one_night_def six_pressures_def
  sync_health_data_def retry_on_exception_def range_py_3

text \<open>With the undecorated weight analysis the same cycle completes, and all eight
  readings of the three sources that answered reach the calendar.\<close>

lemma weight_down_cycle_undecorated:
  "fst (sync_health_data_body_with (analyze_weight_trend_wrapped blank) blank (\<lambda>r. True)
         weight_down (day 19000) (init local_only, 0)) = Inr (8, 8)"
  by (simp add: cycle_unfold weight_down_def date_of_day one_rate_def one_night_def
        six_pressures_def tail3_def head3_def mean_def sort_values_def day_def std_def
        hours_def total_seconds_def)

text \<open>
  C1. The cycle in which the weight source fails after its retries and the other three
  sources deliver data. The per-source fetch isolates the failure: it is
  recorded for the weight source alone, with its detail, and the other three are recorded
  as successes. But the cycle does not complete: the aggregator raises \<open>TypeError\<close> on
  the weight analysis, in each of the three attempts, no summary is produced, and the
  exception leaves \<open>sync_health_data\<close>.
\<close>

theorem sync_health_data_weight_down_raises:
  "outcome (sync_health_data blank (\<lambda>r. True) weight_down (day 19000) (init local_only) 0)
     = Inl (TypeError ''unhashable type'')
   \<and> invocations (sync_health_data blank (\<lambda>r. True) weight_down (day 19000)
         (init local_only) 0) = 3
   \<and> cached_summary (fst (world (sync_health_data blank (\<lambda>r. True) weight_down (day 19000)
         (init local_only) 0))) = None
   \<and> last_sync_status (fst (world (sync_health_data blank (\<lambda>r. True) weight_down (day 19000)
         (init local_only) 0))) ''withings_weight''
       = Some \<lparr>status = ''error'', recorded = day 19000, error = Some ''Connection timed out''\<rparr>
   \<and> last_sync_status (fst (world (sync_health_data blank (\<lambda>r. True) weight_down (day 19000)
         (init local_only) 0))) ''withings_sleep''
       = Some \<lparr>status = ''success'', recorded = day 19000, error = None\<rparr>
   \<and> last_sync_status (fst (world (sync_health_data blank (\<lambda>r. True) weight_down (day 19000)
         (init local_only) 0))) ''omron_bp''
       = Some \<lparr>status = ''success'', recorded = day 19000, error = None\<rparr>
   \<and> last_sync_status (fst (world (sync_health_data blank (\<lambda>r. True) weight_down (day 19000)
         (init local_only) 0))) ''omron_hr''
       = Some \<lparr>status = ''success'', recorded = day 19000, error = None\<rparr>"
proof (intro conjI)
  let ?run = "sync_health_data blank (\<lambda>r. True) weight_down (day 19000) (init local_only) 0"
  show "outcome ?run = Inl (TypeError ''unhashable type'')"
    by (rule sync_health_data_always_raises [THEN conjunct1])
  show "invocations ?run = 3"
    by (rule sync_health_data_always_raises [THEN conjunct2])
  show "cached_summary (fst (world ?run)) = None"
    by (simp add: weight_down_unfold)
  show "last_sync_status (fst (world ?run)) ''withings_weight''
          = Some \<lparr>status = ''error'', recorded = day 19000, error = Some ''Connection timed out''\<rparr>"
    by (simp add: weight_down_unfold)
  show "last_sync_status (fst (world ?run)) ''withings_sleep''
          = Some \<lparr>status = ''success'', recorded = day 19000, error = None\<rparr>"
    by (simp add: weight_down_unfold)
  show "last_sync_status (fst (world ?run)) ''omron_bp''
          = Some \<lparr>status = ''success'', recorded = day 19000, error = None\<rparr>"
    by (simp add: weight_down_unfold)
  show "last_sync_status (fst (world ?run)) ''omron_hr''
          = Some \<lparr>status = ''success'', recorded = day 19000, error = None\<rparr>"
    by (simp add: weight_down_unfold)
qed


section \<open>RateLimiter: proofs\<close>







end
